theory Spec2Isabelle
  imports Main "HOL-Library.Sublist"
begin

section \<open>JavaScript values and operators used by the two pages\<close>

text \<open>
  The page components are loosely typed: the premium flag, the row fields and the
  intermediate results of \<^verbatim>\<open>&&\<close> and \<^verbatim>\<open>||\<close> chains are plain JavaScript values.
  Only the kinds of value that reach these expressions are modelled: \<^verbatim>\<open>undefined\<close>,
  \<^verbatim>\<open>null\<close>, booleans and strings. A string is a list of characters, one per code unit,
  so that \<^verbatim>\<open>length\<close> and \<^verbatim>\<open>slice\<close> count positions of that list.
\<close>

datatype jsval = JUndefined | JNull | JBool bool | JStr string

text \<open>ToBoolean: \<^verbatim>\<open>undefined\<close>, \<^verbatim>\<open>null\<close>, \<^verbatim>\<open>false\<close> and the empty string are falsy.\<close>

fun truthy :: "jsval \<Rightarrow> bool" where
  "truthy JUndefined = False"
| "truthy JNull = False"
| "truthy (JBool b) = b"
| "truthy (JStr s) = (s \<noteq> [])"

text \<open>\<^verbatim>\<open>a && b\<close> is \<^verbatim>\<open>a\<close> itself when \<^verbatim>\<open>a\<close> is falsy, else \<^verbatim>\<open>b\<close>;
  \<^verbatim>\<open>a || b\<close> is \<^verbatim>\<open>a\<close> itself when \<^verbatim>\<open>a\<close> is truthy, else \<^verbatim>\<open>b\<close>.\<close>

definition js_and :: "jsval \<Rightarrow> jsval \<Rightarrow> jsval" where
  "js_and a b = (if truthy a then b else a)"

definition js_or :: "jsval \<Rightarrow> jsval \<Rightarrow> jsval" where
  "js_or a b = (if truthy a then a else b)"

text \<open>\<^verbatim>\<open>v === 'literal'\<close>: true exactly for that string.\<close>

definition strict_eq :: "jsval \<Rightarrow> string \<Rightarrow> jsval" where
  "strict_eq v lit = JBool (v = JStr lit)"

text \<open>A nullable text column of a backend row: \<^verbatim>\<open>null\<close> or a string.\<close>

fun field :: "string option \<Rightarrow> jsval" where
  "field None = JNull"
| "field (Some s) = JStr s"

text \<open>
  \<^verbatim>\<open>new Date(v)\<close> yields a time value in milliseconds, or an invalid date (\<open>None\<close>).
  Parsing a date string is the platform's work and is a parameter \<open>parseDate\<close>; a
  non-string argument is converted to a number first.
  \<^verbatim>\<open>a > b\<close> on two dates compares their time values and is false when either is invalid.
\<close>

fun new_Date :: "(string \<Rightarrow> int option) \<Rightarrow> jsval \<Rightarrow> int option" where
  "new_Date parseDate (JStr s) = parseDate s"
| "new_Date parseDate JNull = Some 0"
| "new_Date parseDate (JBool b) = Some (if b then 1 else 0)"
| "new_Date parseDate JUndefined = None"

fun date_gt :: "int option \<Rightarrow> int option \<Rightarrow> jsval" where
  "date_gt (Some a) (Some b) = JBool (b < a)"
| "date_gt _ _ = JBool False"

section \<open>Dashboard.tsx\<close>

subsection \<open>Rows and view state\<close>

record profile =
  plan_tier :: "string option"
  plan_status :: "string option"
  plan_renews_at :: "string option"

record recording =
  storage_path :: "string option"

text \<open>A \<^verbatim>\<open>job_requests\<close> row joined with its recordings; \<open>recordings\<close> is \<open>None\<close> when
  the row carries no such property.\<close>

record cast =
  cast_id :: string
  job_title :: "string option"
  resume_path :: "string option"
  status :: "string option"
  created_at :: string
  recordings :: "recording list option"

record auth_user =
  user_id :: string
  user_email :: string

text \<open>The result \<^verbatim>\<open>{ data, error }\<close> of a backend query, and what awaiting it gives:
  the promise rejects, or resolves to such a result.\<close>

record 'a query_result =
  result_data :: "'a option"
  result_error :: "string option"

datatype 'a awaited = Rejected string | Resolved 'a

text \<open>
  The component's state hooks, together with a log of the \<^verbatim>\<open>navigate\<close> calls made
  (oldest first). The sidebar toggle plays no part in any handler below and is left out.
\<close>

record dashboard =
  user :: "auth_user option"
  careerCasts :: "cast list"
  loading :: bool
  selectedVideo :: "string option"
  showPricingPopup :: bool
  isPremiumActive :: jsval
  planRenewsAt :: "string option"
  dash_navigated :: "string list"

definition dash_navigate :: "string \<Rightarrow> dashboard \<Rightarrow> dashboard" where
  "dash_navigate path s = s\<lparr>dash_navigated := dash_navigated s @ [path]\<rparr>"

subsection \<open>Plan tracking\<close>

text \<open>
  The realtime \<^verbatim>\<open>UPDATE\<close> handler: \<open>row\<close> is \<^verbatim>\<open>payload.new\<close>, \<open>now\<close> the time
  at which \<^verbatim>\<open>new Date()\<close> is evaluated.
\<close>

definition onPlanUpdate :: "(string \<Rightarrow> int option) \<Rightarrow> int \<Rightarrow> profile \<Rightarrow> dashboard \<Rightarrow> dashboard" where
  "onPlanUpdate parseDate now row s =
     (let plan = field (plan_tier row);
          renewAt = field (plan_renews_at row);
          active =
            js_and (js_and (js_and
              (strict_eq plan ''premium'')
              (strict_eq (field (plan_status row)) ''active''))
              renewAt)
              (date_gt (new_Date parseDate renewAt) (Some now))
      in s\<lparr>isPremiumActive := active, planRenewsAt := plan_renews_at row\<rparr>)"

text \<open>
  \<^verbatim>\<open>fetchPlan\<close>: \<open>query\<close> stands for the awaited
  \<^verbatim>\<open>supabase.from('profiles').select(...).eq('id', user.id).single()\<close>.
  An error in the result is rethrown, reading a field of a \<^verbatim>\<open>null\<close> \<open>data\<close> throws,
  and the \<^verbatim>\<open>catch\<close> block sets the flag to \<^verbatim>\<open>false\<close>.
\<close>

definition fetchPlan ::
  "(string \<Rightarrow> int option) \<Rightarrow> int \<Rightarrow> (string \<Rightarrow> profile query_result awaited) \<Rightarrow>
   dashboard \<Rightarrow> dashboard" where
  "fetchPlan parseDate now query s =
     (case user s of
        None \<Rightarrow> s
      | Some u \<Rightarrow>
          (case query (user_id u) of
             Rejected err \<Rightarrow> s\<lparr>isPremiumActive := JBool False\<rparr>
           | Resolved res \<Rightarrow>
               (case result_error res of
                  Some err \<Rightarrow> s\<lparr>isPremiumActive := JBool False\<rparr>
                | None \<Rightarrow>
                    (case result_data res of
                       None \<Rightarrow> s\<lparr>isPremiumActive := JBool False\<rparr>
                     | Some data \<Rightarrow>
                         (let active =
                                js_and (js_and (js_and
                                  (strict_eq (field (plan_tier data)) ''premium'')
                                  (strict_eq (field (plan_status data)) ''active''))
                                  (field (plan_renews_at data)))
                                  (date_gt (new_Date parseDate (field (plan_renews_at data))) (Some now))
                          in s\<lparr>isPremiumActive := active,
                                planRenewsAt := plan_renews_at data\<rparr>)))))"

subsection \<open>The new-submission action\<close>

definition handleNewCast :: "dashboard \<Rightarrow> dashboard" where
  "handleNewCast s =
     (let completedRecordings =
            length (filter (\<lambda>c. truthy (strict_eq (field (status c)) ''recorded''))
                      (careerCasts s))
      in if truthy (isPremiumActive s) then dash_navigate ''/step1'' s
         else if 3 \<le> completedRecordings then s\<lparr>showPricingPopup := True\<rparr>
         else dash_navigate ''/step1'' s)"

text \<open>The upgrade popup is rendered under \<^verbatim>\<open>!isPremiumActive && showPricingPopup\<close>.\<close>

definition popup_shown :: "dashboard \<Rightarrow> bool" where
  "popup_shown s = (\<not> truthy (isPremiumActive s) \<and> showPricingPopup s)"

subsection \<open>The table row\<close>

definition handleViewDetails :: "string \<Rightarrow> dashboard \<Rightarrow> dashboard" where
  "handleViewDetails i s = dash_navigate (''/final-result/'' @ i) s"

text \<open>\<^verbatim>\<open>cast.recordings?.[0]?.storage_path || null\<close>\<close>

definition row_video :: "cast \<Rightarrow> jsval" where
  "row_video c =
     js_or (case recordings c of
              None \<Rightarrow> JUndefined
            | Some [] \<Rightarrow> JUndefined
            | Some (r # rest) \<Rightarrow> field (storage_path r))
           JNull"

text \<open>\<^verbatim>\<open>cast.resume_path && video\<close>\<close>

definition row_both :: "cast \<Rightarrow> jsval" where
  "row_both c = js_and (field (resume_path c)) (row_video c)"

text \<open>The \<^verbatim>\<open>disabled\<close> attribute of the "View" button and its \<^verbatim>\<open>onClick\<close> handler.
  A click on a disabled button reaches no handler.\<close>

definition view_disabled :: "cast \<Rightarrow> bool" where
  "view_disabled c = (\<not> truthy (row_both c))"

definition view_onClick :: "cast \<Rightarrow> dashboard \<Rightarrow> dashboard" where
  "view_onClick c s = (if truthy (row_both c) then handleViewDetails (cast_id c) s else s)"

definition click_view :: "cast \<Rightarrow> dashboard \<Rightarrow> dashboard" where
  "click_view c s = (if view_disabled c then s else view_onClick c s)"

section \<open>Step3.tsx\<close>

subsection \<open>Strings\<close>

text \<open>\<^verbatim>\<open>s.slice(0, n)\<close> for a non-negative \<open>n\<close>: the first \<open>n\<close> characters, or all of
  \<open>s\<close> when it is shorter.\<close>

definition slice0 :: "nat \<Rightarrow> string \<Rightarrow> string" where
  "slice0 n s = take n s"

text \<open>\<^verbatim>\<open>s.includes(t)\<close>: \<open>t\<close> occurs in \<open>s\<close> at some position.\<close>

fun str_includes :: "string \<Rightarrow> string \<Rightarrow> bool" where
  "str_includes [] t = (t = [])"
| "str_includes (c # cs) t = (take (length t) (c # cs) = t \<or> str_includes cs t)"

definition nl :: char where
  "nl = CHR 0x0A"

definition dq :: char where
  "dq = CHR 0x22"

subsection \<open>The prompt\<close>

text \<open>The four fixed pieces of the template literal of \<^verbatim>\<open>buildPrompt\<close>, between which
  the three interpolations are placed.\<close>

definition prompt_intro :: string where
  "prompt_intro =
     [nl] @ ''      You are a professional career coach.'' @
     [nl] @ ''      Create a 30-60 second video introduction script for a candidate applying for the position of '' @ [dq]"

definition prompt_job :: string where
  "prompt_job =
     [dq] @ ''.'' @
     [nl] @ ''      '' @
     [nl] @ ''      Job Description:'' @
     [nl] @ ''      ''"

definition prompt_resume :: string where
  "prompt_resume =
     [nl] @
     [nl] @ ''      Candidate'' @ [CHR 0x27] @ ''s Resume:'' @
     [nl] @ ''      ''"

definition prompt_rules :: string where
  "prompt_rules =
     [nl] @
     [nl] @ ''      The script should be:'' @
     [nl] @ ''      - Professional, confident, and engaging.'' @
     [nl] @ ''      - Highlight key skills matching the job description.'' @
     [nl] @ ''      - Written in the first person ('' @ [dq] @ ''I am...'' @ [dq] @ '').'' @
     [nl] @ ''      - Easy to read aloud (teleprompter friendly).'' @
     [nl] @ ''      - No placeholders like [Your Name], use the candidate'' @ [CHR 0x27] @
            ''s actual details if available, or generic but natural phrasing.'' @
     [nl] @ ''    ''"

definition buildPrompt :: "string \<Rightarrow> string \<Rightarrow> string \<Rightarrow> string" where
  "buildPrompt jobTitle jobDesc resumeText =
     prompt_intro @ jobTitle @ prompt_job @ slice0 1500 jobDesc @
     prompt_resume @ slice0 2000 resumeText @ prompt_rules"

subsection \<open>View state and effects\<close>

text \<open>
  The state hooks of the page, the browser's local storage (a map from keys to strings,
  \<^verbatim>\<open>getItem\<close> giving \<^verbatim>\<open>null\<close> for a missing key), and logs of the effects: the toasts
  shown (message and kind), the \<^verbatim>\<open>navigate\<close> calls, and the prompts sent to the
  \<^verbatim>\<open>generate-intro\<close> function, each oldest first. The playback speed is a JavaScript
  number; its type is left open and \<^verbatim>\<open>toString\<close> is passed in where it is used.
\<close>

record 'n step3 =
  teleprompterText :: string
  isGenerating :: bool
  isRewriting :: bool
  error :: "string option"
  teleprompterSpeed :: 'n
  localStorage :: "string \<rightharpoonup> string"
  toasts :: "(string \<times> string) list"
  navigated :: "string list"
  invoked :: "string list"

definition getItem :: "string \<Rightarrow> 'n step3 \<Rightarrow> jsval" where
  "getItem k s = field (localStorage s k)"

definition setItem :: "string \<Rightarrow> string \<Rightarrow> 'n step3 \<Rightarrow> 'n step3" where
  "setItem k v s = s\<lparr>localStorage := (localStorage s)(k \<mapsto> v)\<rparr>"

definition showToast :: "string \<Rightarrow> string \<Rightarrow> 'n step3 \<Rightarrow> 'n step3" where
  "showToast msg kind s = s\<lparr>toasts := toasts s @ [(msg, kind)]\<rparr>"

definition navigate :: "string \<Rightarrow> 'n step3 \<Rightarrow> 'n step3" where
  "navigate path s = s\<lparr>navigated := navigated s @ [path]\<rparr>"

subsection \<open>Calling the text-generation function\<close>

text \<open>
  A thrown value, with its \<^verbatim>\<open>message\<close> property. The result
  \<^verbatim>\<open>{ data, error }\<close> of \<^verbatim>\<open>supabase.functions.invoke\<close>: \<open>data\<close> may be \<^verbatim>\<open>null\<close>,
  its \<^verbatim>\<open>introduction\<close> property may be missing, and \<open>error\<close> carries a message.
\<close>

datatype js_error = Error (message: string)

record intro_data =
  introduction :: "string option"

record invoke_result =
  invoke_data :: "intro_data option"
  invoke_error :: "string option"

datatype invoke_outcome = Throws js_error | Returns invoke_result

text \<open>The message of the TypeError raised by reading \<^verbatim>\<open>data.introduction\<close> when
  \<open>data\<close> is \<^verbatim>\<open>null\<close>; the wording is the engine's.\<close>

definition null_data_message :: string where
  "null_data_message =
     ''Cannot read properties of null (reading '' @ [CHR 0x27] @ ''introduction'' @ [CHR 0x27] @ '')''"

text \<open>
  \<^verbatim>\<open>callOpenAI\<close>: \<open>invoke\<close> stands for the awaited remote call on a prompt. The call is
  logged, then its result is either returned (\<open>Inr\<close>) or thrown (\<open>Inl\<close>).
\<close>

definition callOpenAI ::
  "(string \<Rightarrow> invoke_outcome) \<Rightarrow> string \<Rightarrow> 'n step3 \<Rightarrow> (js_error + string) \<times> 'n step3" where
  "callOpenAI invoke prompt s =
     (let s' = s\<lparr>invoked := invoked s @ [prompt]\<rparr>
      in case invoke prompt of
           Throws e \<Rightarrow> (Inl e, s')
         | Returns res \<Rightarrow>
             (case invoke_error res of
                Some msg \<Rightarrow> (Inl (Error msg), s')
              | None \<Rightarrow>
                  (case invoke_data res of
                     None \<Rightarrow> (Inl (Error null_data_message), s')
                   | Some d \<Rightarrow>
                       (case js_or (field (introduction d)) (JStr ''Could not generate introduction.'') of
                          JStr r \<Rightarrow> (Inr r, s')
                        | _ \<Rightarrow> (Inr [], s')))))"

subsection \<open>Generating the script\<close>

text \<open>The \<^verbatim>\<open>catch\<close> block of \<^verbatim>\<open>generateIntroduction\<close>.\<close>

definition generate_failed :: "js_error \<Rightarrow> 'n step3 \<Rightarrow> 'n step3" where
  "generate_failed err s =
     showToast ''Failed to generate script. Please try again.'' ''error''
       (s\<lparr>error := Some (if message err \<noteq> [] then message err
                           else ''Something went wrong while generating.'')\<rparr>)"

definition missing_inputs_message :: string where
  "missing_inputs_message =
     ''Missing job title, description, or resume. Please complete Step 1 and 2 first.''"

text \<open>
  \<^verbatim>\<open>generateIntroduction\<close>, run to completion: the flags set on entry, the
  \<^verbatim>\<open>try\<close> body, the \<^verbatim>\<open>catch\<close> block on a throw, and the \<^verbatim>\<open>finally\<close> block.
  The text field is disabled while \<open>isGenerating\<close> holds, so no edit falls between
  the start and the end of a run.
\<close>

definition generateIntroduction :: "(string \<Rightarrow> invoke_outcome) \<Rightarrow> 'n step3 \<Rightarrow> 'n step3" where
  "generateIntroduction invoke s0 =
     (let s1 = s0\<lparr>isGenerating := True, error := None\<rparr>;
          jobTitle = getItem ''careercast_jobTitle'' s1;
          jobDescription = getItem ''careercast_jobDescription'' s1;
          resumeText = getItem ''resumeFullText'' s1;
          s2 =
            (if \<not> truthy jobTitle \<or> \<not> truthy jobDescription \<or> \<not> truthy resumeText
             then generate_failed (Error missing_inputs_message) s1
             else
               (case (jobTitle, jobDescription, resumeText) of
                  (JStr t, JStr d, JStr r) \<Rightarrow>
                    (case callOpenAI invoke (buildPrompt t d r) s1 of
                       (Inl err, s') \<Rightarrow> generate_failed err s'
                     | (Inr result, s') \<Rightarrow>
                         setItem ''teleprompterText'' result (s'\<lparr>teleprompterText := result\<rparr>))
                | _ \<Rightarrow> s1))
      in s2\<lparr>isGenerating := False, isRewriting := False\<rparr>)"

subsection \<open>Mount, recording and editing\<close>

definition placeholder_text :: string where
  "placeholder_text =
     ''Please go back to Step 1 and provide job details to generate your personalized introduction.''"

text \<open>The effect run once on mount.\<close>

definition on_mount :: "(string \<Rightarrow> invoke_outcome) \<Rightarrow> 'n step3 \<Rightarrow> 'n step3" where
  "on_mount invoke s =
     (let saved = getItem ''teleprompterText'' s;
          jobTitle = getItem ''careercast_jobTitle'' s
      in case saved of
           JStr sv \<Rightarrow>
             if sv \<noteq> [] \<and> 10 < length sv then s\<lparr>teleprompterText := sv\<rparr>
             else if truthy jobTitle then generateIntroduction invoke s
             else s\<lparr>error := Some ''Please complete Step 1 (Job Details) first.'',
                    teleprompterText := placeholder_text\<rparr>
         | _ \<Rightarrow>
             if truthy jobTitle then generateIntroduction invoke s
             else s\<lparr>error := Some ''Please complete Step 1 (Job Details) first.'',
                    teleprompterText := placeholder_text\<rparr>)"

definition handleStartRecording :: "('n \<Rightarrow> string) \<Rightarrow> 'n step3 \<Rightarrow> 'n step3" where
  "handleStartRecording toString s =
     (if teleprompterText s = [] \<or> str_includes (teleprompterText s) ''Please go back''
      then showToast ''Wait for AI to generate your script first.'' ''warning'' s
      else navigate ''/record''
             (setItem ''teleprompterSpeed'' (toString (teleprompterSpeed s))
               (setItem ''teleprompterText'' (teleprompterText s) s)))"

text \<open>\<^verbatim>\<open>handleTextChange\<close>; \<open>v\<close> is \<^verbatim>\<open>e.target.value\<close>.\<close>

definition handleTextChange :: "string \<Rightarrow> 'n step3 \<Rightarrow> 'n step3" where
  "handleTextChange v s = setItem ''teleprompterText'' v (s\<lparr>teleprompterText := v\<rparr>)"

section \<open>Initial states and the vocabulary of the specification\<close>

text \<open>The initial values of the state hooks of \<^verbatim>\<open>Dashboard\<close> and \<^verbatim>\<open>Step3\<close>; the
  signed-in user, the initial speed \<^verbatim>\<open>1\<close> and the content of local storage are given.\<close>

definition dash_init :: "auth_user option \<Rightarrow> dashboard" where
  "dash_init u =
     \<lparr>user = u, careerCasts = [], loading = True, selectedVideo = None,
      showPricingPopup = False, isPremiumActive = JBool False, planRenewsAt = None,
      dash_navigated = []\<rparr>"

definition step3_init :: "'n \<Rightarrow> (string \<rightharpoonup> string) \<Rightarrow> 'n step3" where
  "step3_init one store =
     \<lparr>teleprompterText = [], isGenerating = False, isRewriting = False, error = None,
      teleprompterSpeed = one, localStorage = store, toasts = [], navigated = [],
      invoked = []\<rparr>"

text \<open>
  The premium condition in the specification's words: the tier is premium, the status is
  active, and the renewal timestamp is present (neither \<^verbatim>\<open>null\<close> nor empty) and
  denotes a time strictly after the current time.
\<close>

definition premium_active_spec :: "(string \<Rightarrow> int option) \<Rightarrow> int \<Rightarrow> profile \<Rightarrow> bool" where
  "premium_active_spec parseDate now row =
     (plan_tier row = Some ''premium'' \<and>
      plan_status row = Some ''active'' \<and>
      (case plan_renews_at row of
         None \<Rightarrow> False
       | Some r \<Rightarrow> r \<noteq> [] \<and> (case parseDate r of None \<Rightarrow> False | Some t \<Rightarrow> now < t)))"


text \<open>The number of submissions whose status is \<^verbatim>\<open>recorded\<close>.\<close>

definition completed_count :: "cast list \<Rightarrow> nat" where
  "completed_count cs = length (filter (\<lambda>c. status c = Some ''recorded'') cs)"

text \<open>A row has a non-empty resume reference; its first recording has a non-empty video
  reference.\<close>

definition has_resume :: "cast \<Rightarrow> bool" where
  "has_resume c = (case resume_path c of None \<Rightarrow> False | Some p \<Rightarrow> p \<noteq> [])"

definition has_video :: "cast \<Rightarrow> bool" where
  "has_video c =
     (case recordings c of
        Some (r # rest) \<Rightarrow> (case storage_path r of None \<Rightarrow> False | Some v \<Rightarrow> v \<noteq> [])
      | _ \<Rightarrow> False)"

text \<open>The profile fetch fails: the promise rejects, the result carries an error, or it
  carries no row (reading the row then throws).\<close>

definition fetch_failed :: "profile query_result awaited \<Rightarrow> bool" where
  "fetch_failed out =
     (case out of
        Rejected err \<Rightarrow> True
      | Resolved res \<Rightarrow> result_error res \<noteq> None \<or> result_data res = None)"

text \<open>A key of local storage holds a non-empty value; the three inputs of the generation
  are all there.\<close>

definition stored :: "string \<Rightarrow> 'n step3 \<Rightarrow> bool" where
  "stored k s = (case localStorage s k of None \<Rightarrow> False | Some v \<Rightarrow> v \<noteq> [])"

definition inputs_present :: "'n step3 \<Rightarrow> bool" where
  "inputs_present s =
     (stored ''careercast_jobTitle'' s \<and> stored ''careercast_jobDescription'' s \<and>
      stored ''resumeFullText'' s)"

definition failure_toast :: "string \<times> string" where
  "failure_toast = (''Failed to generate script. Please try again.'', ''error'')"

text \<open>The remote call fails: it throws, or it returns an error.\<close>

definition remote_failed :: "invoke_outcome \<Rightarrow> bool" where
  "remote_failed out =
     (case out of Throws e \<Rightarrow> True | Returns res \<Rightarrow> invoke_error res \<noteq> None)"

text \<open>A sequence of change events of the text field, handled in order.\<close>

fun edit_all :: "string list \<Rightarrow> 'n step3 \<Rightarrow> 'n step3" where
  "edit_all [] s = s"
| "edit_all (v # vs) s = edit_all vs (handleTextChange v s)"

text \<open>A saved script of more than 10 characters is in local storage.\<close>

definition reusable :: "'n step3 \<Rightarrow> bool" where
  "reusable s =
     (case localStorage s ''teleprompterText'' of None \<Rightarrow> False | Some sv \<Rightarrow> 10 < length sv)"

text \<open>The script is non-empty and does not contain the sentinel.\<close>

definition may_record :: "string \<Rightarrow> bool" where
  "may_record txt = (txt \<noteq> [] \<and> \<not> sublist ''Please go back'' txt)"

section \<open>The premium flag\<close>

text \<open>The value of the \<^verbatim>\<open>&&\<close> chain, case by case: \<^verbatim>\<open>false\<close> from a failed comparison,
  the renewal value itself when it is \<^verbatim>\<open>null\<close> or empty, else the result of the date
  comparison.\<close>

lemma active_chain:
  "js_and (js_and (js_and
      (strict_eq (field (plan_tier row)) ''premium'')
      (strict_eq (field (plan_status row)) ''active''))
      (field (plan_renews_at row)))
      (date_gt (new_Date parseDate (field (plan_renews_at row))) (Some now))
   = (if plan_tier row \<noteq> Some ''premium'' \<or> plan_status row \<noteq> Some ''active'' then JBool False
      else case plan_renews_at row of
             None \<Rightarrow> JNull
           | Some r \<Rightarrow> if r = [] then JStr []
                       else JBool (case parseDate r of None \<Rightarrow> False | Some t \<Rightarrow> now < t))"
  by (cases "plan_tier row"; cases "plan_status row"; cases "plan_renews_at row")
     (auto simp: js_and_def strict_eq_def split: option.splits)


lemma onPlanUpdate_flag:
  "isPremiumActive (onPlanUpdate parseDate now row s) =
     (if plan_tier row \<noteq> Some ''premium'' \<or> plan_status row \<noteq> Some ''active'' then JBool False
      else case plan_renews_at row of
             None \<Rightarrow> JNull
           | Some r \<Rightarrow> if r = [] then JStr []
                       else JBool (case parseDate r of None \<Rightarrow> False | Some t \<Rightarrow> now < t))"
  by (simp add: onPlanUpdate_def Let_def active_chain del: new_Date.simps date_gt.simps)


text \<open>Where the platform parses no date out of the empty string, as \<^verbatim>\<open>new Date("")\<close>
  does not, "present" in \<open>premium_active_spec\<close> is the same as "not null".\<close>

lemma premium_active_spec_present:
  "parseDate [] = None \<Longrightarrow>
   premium_active_spec parseDate now row =
     (plan_tier row = Some ''premium'' \<and> plan_status row = Some ''active'' \<and>
      (\<exists>r t. plan_renews_at row = Some r \<and> parseDate r = Some t \<and> now < t))"
  by (auto simp: premium_active_spec_def split: option.splits)

text \<open>With tier and status matching and no renewal timestamp, the stored flag is the
  \<^verbatim>\<open>null\<close> that the chain returns: falsy, though not the boolean \<^verbatim>\<open>false\<close>.\<close>

lemma premium_flag_null_renewal:
  "isPremiumActive
     (onPlanUpdate parseDate now
        \<lparr>plan_tier = Some ''premium'', plan_status = Some ''active'', plan_renews_at = None\<rparr> s)
   = JNull"
  by (simp add: onPlanUpdate_flag)




section \<open>The plan gate\<close>

lemma completed_count_eq:
  "length (filter (\<lambda>c. truthy (strict_eq (field (status c)) ''recorded'')) cs) = completed_count cs"
proof -
  have "truthy (strict_eq (field (status c)) ''recorded'') = (status c = Some ''recorded'')"
    for c :: cast
    by (cases "status c") (simp_all add: strict_eq_def)
  then show ?thesis by (simp add: completed_count_def)
qed

text \<open>
  Claim C2. For every list of submission rows and every value of the premium flag, the
  new-submission action navigates to the first wizard step when the flag is true, and also
  when it is false and fewer than 3 rows have status "recorded"; otherwise (flag false,
  at least 3 such rows) it opens the upgrade prompt and does not navigate.
\<close>

theorem handleNewCast_gate:
  "(truthy (isPremiumActive s) \<or> completed_count (careerCasts s) < 3 \<longrightarrow>
      handleNewCast s = s\<lparr>dash_navigated := dash_navigated s @ [''/step1'']\<rparr>) \<and>
   (\<not> truthy (isPremiumActive s) \<and> 3 \<le> completed_count (careerCasts s) \<longrightarrow>
      handleNewCast s = s\<lparr>showPricingPopup := True\<rparr> \<and>
      popup_shown (handleNewCast s) \<and>
      dash_navigated (handleNewCast s) = dash_navigated s)"
  by (auto simp: handleNewCast_def Let_def completed_count_eq dash_navigate_def popup_shown_def)

theorem handleNewCast_gate_witness:
  "popup_shown
     (handleNewCast
        ((dash_init None)\<lparr>careerCasts :=
           replicate 3 \<lparr>cast_id = ''c'', job_title = None, resume_path = None,
                         status = Some ''recorded'', created_at = ''2026-01-01'',
                         recordings = None\<rparr>\<rparr>)) \<and>
   dash_navigated
     (handleNewCast
        ((dash_init None)\<lparr>careerCasts :=
           replicate 3 \<lparr>cast_id = ''c'', job_title = None, resume_path = None,
                         status = Some ''recorded'', created_at = ''2026-01-01'',
                         recordings = None\<rparr>\<rparr>)) = [] \<and>
   dash_navigated (handleNewCast (dash_init None)) = [''/step1'']"
  using handleNewCast_gate
    [of "(dash_init None)\<lparr>careerCasts :=
           replicate 3 \<lparr>cast_id = ''c'', job_title = None, resume_path = None,
                         status = Some ''recorded'', created_at = ''2026-01-01'',
                         recordings = None\<rparr>\<rparr>"]
    handleNewCast_gate [of "dash_init None"]
  by (simp add: completed_count_def dash_init_def numeral_3_eq_3 popup_shown_def)

lemma fetchPlan_failed:
  "user s = Some u \<Longrightarrow> fetch_failed (query (user_id u)) \<Longrightarrow>
   fetchPlan parseDate now query s = s\<lparr>isPremiumActive := JBool False\<rparr>"
  by (auto simp: fetchPlan_def fetch_failed_def split: awaited.splits option.splits)

text \<open>
  Claim C9. Whenever the one-time profile fetch of a signed-in user fails (an error is
  returned or thrown), the premium flag is set to \<^verbatim>\<open>false\<close>: the gate fails closed, and
  with 3 or more recorded submissions the new-submission action then opens the upgrade
  prompt and does not navigate.
\<close>

theorem fetchPlan_fails_closed:
  assumes "user s = Some u" and "fetch_failed (query (user_id u))"
  shows "isPremiumActive (fetchPlan parseDate now query s) = JBool False \<and>
         (3 \<le> completed_count (careerCasts s) \<longrightarrow>
            popup_shown (handleNewCast (fetchPlan parseDate now query s)) \<and>
            dash_navigated (handleNewCast (fetchPlan parseDate now query s)) = dash_navigated s)"
  using assms
  by (simp add: fetchPlan_failed handleNewCast_def Let_def completed_count_eq popup_shown_def)

theorem fetchPlan_fails_closed_witness:
  "isPremiumActive
     (fetchPlan (\<lambda>d. None) 0 (\<lambda>i. Rejected ''Failed to fetch'')
        ((dash_init (Some \<lparr>user_id = ''u1'', user_email = ''u1@example.org''\<rparr>))
           \<lparr>isPremiumActive := JBool True\<rparr>)) = JBool False"
proof -
  have u: "user ((dash_init (Some \<lparr>user_id = ''u1'', user_email = ''u1@example.org''\<rparr>))
             \<lparr>isPremiumActive := JBool True\<rparr>)
           = Some \<lparr>user_id = ''u1'', user_email = ''u1@example.org''\<rparr>"
    by (simp add: dash_init_def)
  have f: "fetch_failed ((\<lambda>i. Rejected ''Failed to fetch'')
             (user_id \<lparr>user_id = ''u1'', user_email = ''u1@example.org''\<rparr>))"
    by (simp add: fetch_failed_def)
  show ?thesis
    using fetchPlan_fails_closed [OF u f, of "\<lambda>d. None" 0] by simp
qed

section \<open>The "View" action of a row\<close>

lemma row_both_truthy: "truthy (row_both c) = (has_resume c \<and> has_video c)"
  by (cases "resume_path c"; cases "recordings c")
     (auto simp: row_both_def row_video_def js_and_def js_or_def has_resume_def has_video_def
           split: list.splits option.splits)

text \<open>
  Claim C6. For every submission row of the table, the "View" action is enabled if and
  only if the row has a non-empty resume reference and a non-empty video reference, the
  latter taken from the row's first recording; an enabled action navigates to the row's
  detail view, and for a row missing either reference the action is disabled and a click
  does not navigate.
\<close>

theorem view_enabled_iff:
  "(\<not> view_disabled c) = (has_resume c \<and> has_video c) \<and>
   (has_resume c \<and> has_video c \<longrightarrow>
      click_view c s = s\<lparr>dash_navigated := dash_navigated s @ [''/final-result/'' @ cast_id c]\<rparr>) \<and>
   (\<not> (has_resume c \<and> has_video c) \<longrightarrow> click_view c s = s \<and> view_onClick c s = s)"
  by (simp add: view_disabled_def click_view_def view_onClick_def row_both_truthy
                handleViewDetails_def dash_navigate_def)

theorem view_enabled_iff_witness:
  "\<not> view_disabled
       \<lparr>cast_id = ''42'', job_title = Some ''Nurse'', resume_path = Some ''cv.pdf'',
        status = Some ''recorded'', created_at = ''2026-01-01'',
        recordings = Some [\<lparr>storage_path = Some ''v.webm''\<rparr>]\<rparr> \<and>
   dash_navigated
     (click_view
        \<lparr>cast_id = ''42'', job_title = Some ''Nurse'', resume_path = Some ''cv.pdf'',
         status = Some ''recorded'', created_at = ''2026-01-01'',
         recordings = Some [\<lparr>storage_path = Some ''v.webm''\<rparr>]\<rparr>
        (dash_init None)) = [''/final-result/42''] \<and>
   view_disabled
       \<lparr>cast_id = ''43'', job_title = Some ''Nurse'', resume_path = Some ''cv.pdf'',
        status = Some ''ready'', created_at = ''2026-01-01'', recordings = Some []\<rparr>"
  using view_enabled_iff
    [of "\<lparr>cast_id = ''42'', job_title = Some ''Nurse'', resume_path = Some ''cv.pdf'',
         status = Some ''recorded'', created_at = ''2026-01-01'',
         recordings = Some [\<lparr>storage_path = Some ''v.webm''\<rparr>]\<rparr>" "dash_init None"]
    view_enabled_iff
    [of "\<lparr>cast_id = ''43'', job_title = Some ''Nurse'', resume_path = Some ''cv.pdf'',
        status = Some ''ready'', created_at = ''2026-01-01'', recordings = Some []\<rparr>"
        "dash_init None"]
  by (simp add: has_resume_def has_video_def dash_init_def)

section \<open>The prompt\<close>

lemma prompt_fixed_length:
  "length prompt_intro = 144" "length prompt_job = 39"
  "length prompt_resume = 34" "length prompt_rules = 365"
  by (simp_all add: prompt_intro_def prompt_job_def prompt_resume_def prompt_rules_def)

text \<open>
  Claim C3. For every job title, job description and resume text (non-empty ones among
  them), the prompt contains the job title verbatim, and of the job description and the
  resume text it contains the first 1500 and the first 2000 characters and nothing
  further: the prompt is the fixed template around the title and the two truncated
  texts, it is the same prompt as for the truncated texts, and its length is that of the
  template (582 characters) plus that of the title plus at most 1500 plus at most 2000.
\<close>

theorem buildPrompt_contents:
  "sublist jobTitle (buildPrompt jobTitle jobDesc resumeText) \<and>
   buildPrompt jobTitle jobDesc resumeText =
     prompt_intro @ jobTitle @ prompt_job @ take 1500 jobDesc @
     prompt_resume @ take 2000 resumeText @ prompt_rules \<and>
   buildPrompt jobTitle jobDesc resumeText =
     buildPrompt jobTitle (take 1500 jobDesc) (take 2000 resumeText) \<and>
   length (buildPrompt jobTitle jobDesc resumeText) =
     582 + length jobTitle + min 1500 (length jobDesc) + min 2000 (length resumeText)"
  by (simp add: buildPrompt_def slice0_def prompt_fixed_length)

theorem buildPrompt_contents_witness:
  "sublist ''Staff Nurse''
     (buildPrompt ''Staff Nurse'' (replicate 1600 (CHR ''d'')) ''RN, 5 years'') \<and>
   buildPrompt ''Staff Nurse'' (replicate 1600 (CHR ''d'')) ''RN, 5 years'' =
     buildPrompt ''Staff Nurse'' (replicate 1500 (CHR ''d'')) ''RN, 5 years'' \<and>
   length (buildPrompt ''Staff Nurse'' (replicate 1600 (CHR ''d'')) ''RN, 5 years'') = 2104"
proof -
  note c = buildPrompt_contents
    [of "''Staff Nurse''" "replicate 1600 (CHR ''d'')" "''RN, 5 years''"]
  show ?thesis
    using c [THEN conjunct1] c [THEN conjunct2, THEN conjunct2, THEN conjunct1]
      c [THEN conjunct2, THEN conjunct2, THEN conjunct2]
    by simp
qed

section \<open>Generating the script\<close>

lemma generate_missing:
  "\<not> inputs_present s \<Longrightarrow>
   generateIntroduction invoke s =
     s\<lparr>isGenerating := False, isRewriting := False, error := Some missing_inputs_message,
       toasts := toasts s @ [failure_toast]\<rparr>"
  by (auto simp: generateIntroduction_def Let_def inputs_present_def stored_def getItem_def
                 generate_failed_def showToast_def failure_toast_def missing_inputs_message_def
           split: option.splits)

lemma stored_Some: "stored k s \<Longrightarrow> \<exists>v. localStorage s k = Some v \<and> v \<noteq> []"
  by (auto simp: stored_def split: option.splits)

lemma generate_present:
  assumes "localStorage s ''careercast_jobTitle'' = Some t" "t \<noteq> []"
    and "localStorage s ''careercast_jobDescription'' = Some d" "d \<noteq> []"
    and "localStorage s ''resumeFullText'' = Some r" "r \<noteq> []"
  shows "generateIntroduction invoke s =
     (case callOpenAI invoke (buildPrompt t d r) (s\<lparr>isGenerating := True, error := None\<rparr>) of
        (Inl err, s') \<Rightarrow> (generate_failed err s')\<lparr>isGenerating := False, isRewriting := False\<rparr>
      | (Inr result, s') \<Rightarrow>
          (setItem ''teleprompterText'' result (s'\<lparr>teleprompterText := result\<rparr>))
             \<lparr>isGenerating := False, isRewriting := False\<rparr>)"
  using assms
  by (simp add: generateIntroduction_def Let_def getItem_def split: prod.splits sum.splits)

lemma callOpenAI_state:
  "snd (callOpenAI invoke p s) = s\<lparr>invoked := invoked s @ [p]\<rparr>"
  by (simp add: callOpenAI_def Let_def split: invoke_outcome.splits option.splits jsval.splits)

lemma callOpenAI_failed:
  "remote_failed (invoke p) \<Longrightarrow> \<exists>e. fst (callOpenAI invoke p s) = Inl e"
  by (auto simp: callOpenAI_def Let_def remote_failed_def
           split: invoke_outcome.splits option.splits)

text \<open>
  Claim C4. For every state of local storage in which one of the three keys (job title,
  job description, resume text) is absent, the generate action makes no call to the remote
  text-generation function and shows the "missing prerequisite" message (with the failure
  toast); a remote call is made only when all three values are present, and then it is
  made.
\<close>

theorem generate_requires_inputs:
  "((localStorage s ''careercast_jobTitle'' = None \<or>
     localStorage s ''careercast_jobDescription'' = None \<or>
     localStorage s ''resumeFullText'' = None) \<longrightarrow>
      invoked (generateIntroduction invoke s) = invoked s \<and>
      error (generateIntroduction invoke s) = Some missing_inputs_message \<and>
      toasts (generateIntroduction invoke s) = toasts s @ [failure_toast]) \<and>
   (invoked (generateIntroduction invoke s) \<noteq> invoked s) = inputs_present s"
proof -
  have absent: "\<not> inputs_present s"
    if "localStorage s ''careercast_jobTitle'' = None \<or>
        localStorage s ''careercast_jobDescription'' = None \<or>
        localStorage s ''resumeFullText'' = None"
    using that by (auto simp: inputs_present_def stored_def)
  have no_call: "invoked (generateIntroduction invoke s) = invoked s \<and>
      error (generateIntroduction invoke s) = Some missing_inputs_message \<and>
      toasts (generateIntroduction invoke s) = toasts s @ [failure_toast]"
    if "\<not> inputs_present s"
    using that by (simp add: generate_missing)
  have call: "invoked (generateIntroduction invoke s) \<noteq> invoked s" if "inputs_present s"
  proof -
    from that obtain t d r where
      v: "localStorage s ''careercast_jobTitle'' = Some t" "t \<noteq> []"
         "localStorage s ''careercast_jobDescription'' = Some d" "d \<noteq> []"
         "localStorage s ''resumeFullText'' = Some r" "r \<noteq> []"
      unfolding inputs_present_def by (blast dest: stored_Some)
    obtain x s' where
      c: "callOpenAI invoke (buildPrompt t d r) (s\<lparr>isGenerating := True, error := None\<rparr>)
            = (x, s')"
      by (cases "callOpenAI invoke (buildPrompt t d r) (s\<lparr>isGenerating := True, error := None\<rparr>)")
    then have s': "s' = s\<lparr>isGenerating := True, error := None,
                          invoked := invoked s @ [buildPrompt t d r]\<rparr>"
      using callOpenAI_state
        [of invoke "buildPrompt t d r" "s\<lparr>isGenerating := True, error := None\<rparr>"]
      by simp
    show ?thesis
      by (cases x)
         (simp_all add: generate_present [OF v] c s' generate_failed_def showToast_def
                        setItem_def)
  qed
  from absent no_call call show ?thesis by blast
qed

theorem generate_requires_inputs_witness:
  "invoked
     (generateIntroduction
        (\<lambda>p. Returns \<lparr>invoke_data = Some \<lparr>introduction = Some ''Hello, I am a nurse.''\<rparr>,
                       invoke_error = None\<rparr>)
        (step3_init (1::nat) [''careercast_jobTitle'' \<mapsto> ''Staff Nurse''])) = [] \<and>
   error
     (generateIntroduction
        (\<lambda>p. Returns \<lparr>invoke_data = Some \<lparr>introduction = Some ''Hello, I am a nurse.''\<rparr>,
                       invoke_error = None\<rparr>)
        (step3_init (1::nat) [''careercast_jobTitle'' \<mapsto> ''Staff Nurse'']))
     = Some missing_inputs_message \<and>
   invoked
     (generateIntroduction
        (\<lambda>p. Returns \<lparr>invoke_data = Some \<lparr>introduction = Some ''Hello, I am a nurse.''\<rparr>,
                       invoke_error = None\<rparr>)
        (step3_init (1::nat) [''careercast_jobTitle'' \<mapsto> ''Staff Nurse'',
           ''careercast_jobDescription'' \<mapsto> ''Ward duty'',
           ''resumeFullText'' \<mapsto> ''RN, 5 years''])) \<noteq> []"
  using generate_requires_inputs
     [of "step3_init (1::nat) [''careercast_jobTitle'' \<mapsto> ''Staff Nurse'']"
         "\<lambda>p. Returns \<lparr>invoke_data = Some \<lparr>introduction = Some ''Hello, I am a nurse.''\<rparr>,
                        invoke_error = None\<rparr>"]
    generate_requires_inputs
     [of "step3_init (1::nat) [''careercast_jobTitle'' \<mapsto> ''Staff Nurse'',
           ''careercast_jobDescription'' \<mapsto> ''Ward duty'',
           ''resumeFullText'' \<mapsto> ''RN, 5 years'']"
         "\<lambda>p. Returns \<lparr>invoke_data = Some \<lparr>introduction = Some ''Hello, I am a nurse.''\<rparr>,
                        invoke_error = None\<rparr>"]
  by (simp add: step3_init_def inputs_present_def stored_def)

text \<open>
  Claim C5. For every prior script text, if the remote generation call fails (it returns
  an error or throws), then after the generate action the script text and local storage,
  the stored script with it, are what they were before, the failure toast has been shown
  and an error message is set, and the remote function has been called once where the
  three inputs are present and not at all otherwise: there is no retry.
\<close>

theorem generate_failure_keeps_script:
  assumes "\<And>p. remote_failed (invoke p)"
  shows "teleprompterText (generateIntroduction invoke s) = teleprompterText s \<and>
         localStorage (generateIntroduction invoke s) = localStorage s \<and>
         toasts (generateIntroduction invoke s) = toasts s @ [failure_toast] \<and>
         error (generateIntroduction invoke s) \<noteq> None \<and>
         (\<exists>calls. invoked (generateIntroduction invoke s) = invoked s @ calls \<and>
                  length calls = (if inputs_present s then 1 else 0))"
proof (cases "inputs_present s")
  case False
  then show ?thesis by (simp add: generate_missing)
next
  case True
  then obtain t d r where
    v: "localStorage s ''careercast_jobTitle'' = Some t" "t \<noteq> []"
       "localStorage s ''careercast_jobDescription'' = Some d" "d \<noteq> []"
       "localStorage s ''resumeFullText'' = Some r" "r \<noteq> []"
    unfolding inputs_present_def by (blast dest: stored_Some)
  let ?s1 = "s\<lparr>isGenerating := True, error := None\<rparr>"
  obtain e where e: "fst (callOpenAI invoke (buildPrompt t d r) ?s1) = Inl e"
    using callOpenAI_failed [of invoke, OF assms] by blast
  have c: "callOpenAI invoke (buildPrompt t d r) ?s1 =
             (Inl e, ?s1\<lparr>invoked := invoked s @ [buildPrompt t d r]\<rparr>)"
    using e callOpenAI_state [of invoke "buildPrompt t d r" ?s1]
    by (cases "callOpenAI invoke (buildPrompt t d r) ?s1") simp
  show ?thesis
    using True
    by (simp add: generate_present [OF v] c generate_failed_def showToast_def failure_toast_def)
qed

theorem generate_failure_keeps_script_witness:
  "teleprompterText
     (generateIntroduction
        (\<lambda>p. Returns \<lparr>invoke_data = None,
                       invoke_error = Some ''Edge Function returned a non-2xx status code''\<rparr>)
        ((step3_init (1::nat) [''careercast_jobTitle'' \<mapsto> ''Staff Nurse'',
           ''careercast_jobDescription'' \<mapsto> ''Ward duty'',
           ''resumeFullText'' \<mapsto> ''RN, 5 years'',
           ''teleprompterText'' \<mapsto> ''My earlier script''])
         \<lparr>teleprompterText := ''My earlier script''\<rparr>))
     = ''My earlier script'' \<and>
   localStorage
     (generateIntroduction
        (\<lambda>p. Returns \<lparr>invoke_data = None,
                       invoke_error = Some ''Edge Function returned a non-2xx status code''\<rparr>)
        ((step3_init (1::nat) [''careercast_jobTitle'' \<mapsto> ''Staff Nurse'',
           ''careercast_jobDescription'' \<mapsto> ''Ward duty'',
           ''resumeFullText'' \<mapsto> ''RN, 5 years'',
           ''teleprompterText'' \<mapsto> ''My earlier script''])
         \<lparr>teleprompterText := ''My earlier script''\<rparr>))
     ''teleprompterText'' = Some ''My earlier script'' \<and>
   toasts
     (generateIntroduction
        (\<lambda>p. Returns \<lparr>invoke_data = None,
                       invoke_error = Some ''Edge Function returned a non-2xx status code''\<rparr>)
        ((step3_init (1::nat) [''careercast_jobTitle'' \<mapsto> ''Staff Nurse'',
           ''careercast_jobDescription'' \<mapsto> ''Ward duty'',
           ''resumeFullText'' \<mapsto> ''RN, 5 years'',
           ''teleprompterText'' \<mapsto> ''My earlier script''])
         \<lparr>teleprompterText := ''My earlier script''\<rparr>))
     = [failure_toast]"
proof -
  have h: "\<And>p. remote_failed ((\<lambda>p. Returns \<lparr>invoke_data = None,
              invoke_error = Some ''Edge Function returned a non-2xx status code''\<rparr>) p)"
    by (simp add: remote_failed_def)
  show ?thesis
    using generate_failure_keeps_script
      [of "\<lambda>p. Returns \<lparr>invoke_data = None,
              invoke_error = Some ''Edge Function returned a non-2xx status code''\<rparr>"
          "(step3_init (1::nat) [''careercast_jobTitle'' \<mapsto> ''Staff Nurse'',
             ''careercast_jobDescription'' \<mapsto> ''Ward duty'',
             ''resumeFullText'' \<mapsto> ''RN, 5 years'',
             ''teleprompterText'' \<mapsto> ''My earlier script''])
           \<lparr>teleprompterText := ''My earlier script''\<rparr>",
       OF h]
    by (simp add: step3_init_def)
qed

section \<open>Editing, mounting and starting the recording\<close>

lemma handleTextChange_sync:
  "localStorage (handleTextChange v s) ''teleprompterText'' = Some v \<and>
   teleprompterText (handleTextChange v s) = v"
  by (simp add: handleTextChange_def setItem_def)

lemma edit_all_last:
  "vs \<noteq> [] \<Longrightarrow>
   localStorage (edit_all vs s) ''teleprompterText'' = Some (last vs) \<and>
   teleprompterText (edit_all vs s) = last vs"
proof (induction vs arbitrary: s)
  case Nil
  then show ?case by simp
next
  case (Cons v vs)
  show ?case
  proof (cases vs)
    case Nil
    then show ?thesis by (simp add: handleTextChange_sync)
  next
    case (Cons w ws)
    then show ?thesis using Cons.IH [of "handleTextChange v s"] by simp
  qed
qed

text \<open>
  Claim C7. For every sequence of edits of the script field and every point in it after
  the first change event, the value stored in local storage under the script key equals
  the current value of the field, which is the value of the latest edit: the change
  handler writes each new value to both.
\<close>

theorem edits_keep_storage_equal:
  assumes "0 < n" and "n \<le> length vs"
  shows "localStorage (edit_all (take n vs) s) ''teleprompterText'' =
           Some (teleprompterText (edit_all (take n vs) s)) \<and>
         teleprompterText (edit_all (take n vs) s) = vs ! (n - 1)"
proof -
  from assms have ne: "take n vs \<noteq> []" by auto
  from assms ne have "last (take n vs) = vs ! (n - 1)"
    by (simp add: last_conv_nth min_def)
  with edit_all_last [OF ne, of s] show ?thesis by simp
qed

theorem edits_keep_storage_equal_witness:
  "localStorage (edit_all (take 2 [''H'', ''Hi'', ''Hi!'']) (step3_init (1::nat) Map.empty))
     ''teleprompterText'' = Some ''Hi'' \<and>
   teleprompterText (edit_all (take 2 [''H'', ''Hi'', ''Hi!'']) (step3_init (1::nat) Map.empty))
     = ''Hi''"
proof -
  have a: "0 < (2::nat)" by simp
  have b: "(2::nat) \<le> length [''H'', ''Hi'', ''Hi!'']" by simp
  show ?thesis
    using edits_keep_storage_equal [OF a b, of "step3_init (1::nat) Map.empty"] by simp
qed

text \<open>The generate action with all three inputs stored: the prompt built from them is
  sent once, and an introduction that comes back becomes the script and is stored.\<close>

lemma generate_calls:
  assumes "localStorage s ''careercast_jobTitle'' = Some t" "t \<noteq> []"
    and "localStorage s ''careercast_jobDescription'' = Some d" "d \<noteq> []"
    and "localStorage s ''resumeFullText'' = Some r" "r \<noteq> []"
  shows "invoked (generateIntroduction invoke s) = invoked s @ [buildPrompt t d r]"
proof -
  let ?s1 = "s\<lparr>isGenerating := True, error := None\<rparr>"
  obtain x s' where c: "callOpenAI invoke (buildPrompt t d r) ?s1 = (x, s')"
    by (cases "callOpenAI invoke (buildPrompt t d r) ?s1")
  then have s': "s' = ?s1\<lparr>invoked := invoked s @ [buildPrompt t d r]\<rparr>"
    using callOpenAI_state [of invoke "buildPrompt t d r" ?s1] by simp
  show ?thesis
    by (cases x)
       (simp_all add: generate_present [OF assms] c s' generate_failed_def showToast_def
                      setItem_def)
qed

lemma callOpenAI_success:
  "invoke p = Returns \<lparr>invoke_data = Some \<lparr>introduction = Some i\<rparr>, invoke_error = None\<rparr> \<Longrightarrow>
   i \<noteq> [] \<Longrightarrow>
   callOpenAI invoke p s = (Inr i, s\<lparr>invoked := invoked s @ [p]\<rparr>)"
  by (simp add: callOpenAI_def Let_def js_or_def)

lemma generate_success:
  assumes "localStorage s ''careercast_jobTitle'' = Some t" "t \<noteq> []"
    and "localStorage s ''careercast_jobDescription'' = Some d" "d \<noteq> []"
    and "localStorage s ''resumeFullText'' = Some r" "r \<noteq> []"
    and "invoke (buildPrompt t d r) =
           Returns \<lparr>invoke_data = Some \<lparr>introduction = Some i\<rparr>, invoke_error = None\<rparr>"
    and "i \<noteq> []"
  shows "teleprompterText (generateIntroduction invoke s) = i \<and>
         localStorage (generateIntroduction invoke s) ''teleprompterText'' = Some i \<and>
         error (generateIntroduction invoke s) = None \<and>
         toasts (generateIntroduction invoke s) = toasts s"
  using assms(1-6)
  by (simp add: generate_present [OF assms(1-6)] callOpenAI_success [of invoke "buildPrompt t d r", OF assms(7,8)] setItem_def)

text \<open>
  Claim C8. On mount of the script page a saved script is reused, and no generation call
  is made, only when it is longer than 10 characters. With a saved script of 10 characters
  or fewer, or none, the saved value is not used. When a job title is stored (a non-empty
  value, as the truthiness test requires) the mount runs the generate action: with the
  description and the resume stored as well, the prompt built from the three is sent to
  the remote function, and an introduction that comes back becomes the script and is
  stored; with one of them missing, no call is made, the script is left as it was, and the
  missing-inputs message and the failure toast are shown. When no job title is stored,
  the error message and the placeholder text are shown and no call is made.
\<close>

theorem mount_reuse_threshold:
  "(localStorage s ''teleprompterText'' = Some sv \<and> 10 < length sv \<longrightarrow>
      on_mount invoke s = s\<lparr>teleprompterText := sv\<rparr> \<and>
      invoked (on_mount invoke s) = invoked s) \<and>
   (\<not> reusable s \<and> stored ''careercast_jobTitle'' s \<longrightarrow>
      on_mount invoke s = generateIntroduction invoke s) \<and>
   (\<not> reusable s \<and> stored ''careercast_jobTitle'' s \<and> \<not> inputs_present s \<longrightarrow>
      invoked (on_mount invoke s) = invoked s \<and>
      teleprompterText (on_mount invoke s) = teleprompterText s \<and>
      error (on_mount invoke s) = Some missing_inputs_message \<and>
      toasts (on_mount invoke s) = toasts s @ [failure_toast]) \<and>
   (\<not> reusable s \<and>
    localStorage s ''careercast_jobTitle'' = Some t \<and> t \<noteq> [] \<and>
    localStorage s ''careercast_jobDescription'' = Some d \<and> d \<noteq> [] \<and>
    localStorage s ''resumeFullText'' = Some r \<and> r \<noteq> [] \<longrightarrow>
      invoked (on_mount invoke s) = invoked s @ [buildPrompt t d r] \<and>
      (i \<noteq> [] \<and>
       invoke (buildPrompt t d r) =
         Returns \<lparr>invoke_data = Some \<lparr>introduction = Some i\<rparr>, invoke_error = None\<rparr> \<longrightarrow>
         teleprompterText (on_mount invoke s) = i \<and>
         localStorage (on_mount invoke s) ''teleprompterText'' = Some i)) \<and>
   (\<not> reusable s \<and> \<not> stored ''careercast_jobTitle'' s \<longrightarrow>
      on_mount invoke s =
        s\<lparr>error := Some ''Please complete Step 1 (Job Details) first.'',
          teleprompterText := placeholder_text\<rparr> \<and>
      invoked (on_mount invoke s) = invoked s)"
proof -
  have branch: "on_mount invoke s = generateIntroduction invoke s"
    if "\<not> reusable s" "stored ''careercast_jobTitle'' s"
    using that
    by (cases "localStorage s ''teleprompterText''"; cases "localStorage s ''careercast_jobTitle''")
       (auto simp: on_mount_def Let_def getItem_def reusable_def stored_def)
  have reuse: "on_mount invoke s = s\<lparr>teleprompterText := sv\<rparr> \<and>
      invoked (on_mount invoke s) = invoked s"
    if "localStorage s ''teleprompterText'' = Some sv" "10 < length sv"
    using that by (auto simp: on_mount_def Let_def getItem_def)
  have none: "on_mount invoke s =
        s\<lparr>error := Some ''Please complete Step 1 (Job Details) first.'',
          teleprompterText := placeholder_text\<rparr> \<and>
      invoked (on_mount invoke s) = invoked s"
    if "\<not> reusable s" "\<not> stored ''careercast_jobTitle'' s"
    using that
    by (cases "localStorage s ''teleprompterText''"; cases "localStorage s ''careercast_jobTitle''")
       (auto simp: on_mount_def Let_def getItem_def reusable_def stored_def)
  have missing: "invoked (on_mount invoke s) = invoked s \<and>
      teleprompterText (on_mount invoke s) = teleprompterText s \<and>
      error (on_mount invoke s) = Some missing_inputs_message \<and>
      toasts (on_mount invoke s) = toasts s @ [failure_toast]"
    if "\<not> reusable s" "stored ''careercast_jobTitle'' s" "\<not> inputs_present s"
    using that by (simp add: branch generate_missing)
  have call: "invoked (on_mount invoke s) = invoked s @ [buildPrompt t d r] \<and>
      (i \<noteq> [] \<and>
       invoke (buildPrompt t d r) =
         Returns \<lparr>invoke_data = Some \<lparr>introduction = Some i\<rparr>, invoke_error = None\<rparr> \<longrightarrow>
         teleprompterText (on_mount invoke s) = i \<and>
         localStorage (on_mount invoke s) ''teleprompterText'' = Some i)"
    if n: "\<not> reusable s"
      and v: "localStorage s ''careercast_jobTitle'' = Some t" "t \<noteq> []"
        "localStorage s ''careercast_jobDescription'' = Some d" "d \<noteq> []"
        "localStorage s ''resumeFullText'' = Some r" "r \<noteq> []"
  proof -
    from v have "stored ''careercast_jobTitle'' s" by (simp add: stored_def)
    with n have b: "on_mount invoke s = generateIntroduction invoke s" by (rule branch)
    show ?thesis
      using generate_calls [OF v, of invoke] generate_success [OF v, of invoke i]
      by (simp add: b)
  qed
  from branch reuse none missing call show ?thesis by blast
qed

theorem mount_reuse_threshold_witness:
  "teleprompterText
     (on_mount (\<lambda>p. Throws (Error ''offline''))
        (step3_init (1::nat) [''teleprompterText'' \<mapsto> ''Hello there, I am Sam.'']))
     = ''Hello there, I am Sam.'' \<and>
   invoked
     (on_mount (\<lambda>p. Throws (Error ''offline''))
        (step3_init (1::nat) [''teleprompterText'' \<mapsto> ''Hello there, I am Sam.''])) = [] \<and>
   invoked
     (on_mount
        (\<lambda>p. Returns \<lparr>invoke_data = Some \<lparr>introduction = Some ''Hello, I am a nurse.''\<rparr>,
                       invoke_error = None\<rparr>)
        (step3_init (1::nat) [''teleprompterText'' \<mapsto> ''0123456789'',
           ''careercast_jobTitle'' \<mapsto> ''Staff Nurse'',
           ''careercast_jobDescription'' \<mapsto> ''Ward duty'',
           ''resumeFullText'' \<mapsto> ''RN, 5 years'']))
     = [buildPrompt ''Staff Nurse'' ''Ward duty'' ''RN, 5 years''] \<and>
   teleprompterText
     (on_mount
        (\<lambda>p. Returns \<lparr>invoke_data = Some \<lparr>introduction = Some ''Hello, I am a nurse.''\<rparr>,
                       invoke_error = None\<rparr>)
        (step3_init (1::nat) [''teleprompterText'' \<mapsto> ''0123456789'',
           ''careercast_jobTitle'' \<mapsto> ''Staff Nurse'',
           ''careercast_jobDescription'' \<mapsto> ''Ward duty'',
           ''resumeFullText'' \<mapsto> ''RN, 5 years'']))
     = ''Hello, I am a nurse.'' \<and>
   error
     (on_mount (\<lambda>p. Throws (Error ''offline''))
        (step3_init (1::nat) [''teleprompterText'' \<mapsto> ''0123456789'',
           ''careercast_jobTitle'' \<mapsto> ''Staff Nurse'']))
     = Some missing_inputs_message \<and>
   teleprompterText
     (on_mount (\<lambda>p. Throws (Error ''offline''))
        (step3_init (1::nat) [''teleprompterText'' \<mapsto> ''0123456789'']))
     = placeholder_text"
proof -
  note reuse = mount_reuse_threshold
     [of "step3_init (1::nat) [''teleprompterText'' \<mapsto> ''Hello there, I am Sam.'']"
         "''Hello there, I am Sam.''" "\<lambda>p. Throws (Error ''offline'')",
      THEN conjunct1]
  note call = mount_reuse_threshold
     [of "step3_init (1::nat) [''teleprompterText'' \<mapsto> ''0123456789'',
           ''careercast_jobTitle'' \<mapsto> ''Staff Nurse'',
           ''careercast_jobDescription'' \<mapsto> ''Ward duty'',
           ''resumeFullText'' \<mapsto> ''RN, 5 years'']"
         "''0123456789''"
         "\<lambda>p. Returns \<lparr>invoke_data = Some \<lparr>introduction = Some ''Hello, I am a nurse.''\<rparr>,
                        invoke_error = None\<rparr>"
         "''Staff Nurse''" "''Ward duty''" "''RN, 5 years''" "''Hello, I am a nurse.''",
      THEN conjunct2, THEN conjunct2, THEN conjunct2, THEN conjunct1]
  note missing = mount_reuse_threshold
     [of "step3_init (1::nat) [''teleprompterText'' \<mapsto> ''0123456789'',
           ''careercast_jobTitle'' \<mapsto> ''Staff Nurse'']"
         "''0123456789''" "\<lambda>p. Throws (Error ''offline'')",
      THEN conjunct2, THEN conjunct2, THEN conjunct1]
  note none = mount_reuse_threshold
     [of "step3_init (1::nat) [''teleprompterText'' \<mapsto> ''0123456789'']"
         "''0123456789''" "\<lambda>p. Throws (Error ''offline'')",
      THEN conjunct2, THEN conjunct2, THEN conjunct2, THEN conjunct2]
  show ?thesis
    using reuse call missing none
    by (simp add: step3_init_def reusable_def stored_def inputs_present_def)
qed

lemma take_eq_prefix: "(take (length t) ys = t) = prefix t ys"
  by (metis append_eq_conv_conj prefix_def take_is_prefix)

lemma str_includes_sublist: "str_includes s t = sublist t s"
  by (induction s) (simp_all add: take_eq_prefix sublist_Cons_right)

lemma placeholder_blocked: "str_includes placeholder_text ''Please go back''"
  by (simp add: placeholder_text_def)

text \<open>
  Claim C10. For every script text, the start-recording action navigates to the recording
  view if and only if the text is non-empty and does not contain "Please go back", which
  the placeholder written on mount without a job title does contain. When it navigates it
  has written the script text and the playback speed, converted by \<^verbatim>\<open>toString\<close>, to
  local storage; when blocked it shows a warning and changes nothing else. This is the
  handler; the button that calls it is disabled while a generation runs and while the
  text is empty.
\<close>

theorem start_recording_gate:
  "(navigated (handleStartRecording toString s) \<noteq> navigated s)
     = may_record (teleprompterText s) \<and>
   (may_record (teleprompterText s) \<longrightarrow>
      handleStartRecording toString s =
        s\<lparr>localStorage := (localStorage s)
              (''teleprompterText'' \<mapsto> teleprompterText s,
               ''teleprompterSpeed'' \<mapsto> toString (teleprompterSpeed s)),
          navigated := navigated s @ [''/record'']\<rparr>) \<and>
   (\<not> may_record (teleprompterText s) \<longrightarrow>
      handleStartRecording toString s =
        s\<lparr>toasts := toasts s @
             [(''Wait for AI to generate your script first.'', ''warning'')]\<rparr>) \<and>
   \<not> may_record placeholder_text"
  using placeholder_blocked
  by (simp add: handleStartRecording_def may_record_def str_includes_sublist
                navigate_def setItem_def showToast_def)

theorem start_recording_gate_witness:
  "navigated
     (handleStartRecording (\<lambda>n. ''1'')
        ((step3_init (1::nat) Map.empty)\<lparr>teleprompterText := ''Hello there, I am Sam.''\<rparr>))
     = [''/record''] \<and>
   localStorage
     (handleStartRecording (\<lambda>n. ''1'')
        ((step3_init (1::nat) Map.empty)\<lparr>teleprompterText := ''Hello there, I am Sam.''\<rparr>))
     ''teleprompterSpeed'' = Some ''1'' \<and>
   navigated
     (handleStartRecording (\<lambda>n. ''1'')
        ((step3_init (1::nat) Map.empty)\<lparr>teleprompterText := placeholder_text\<rparr>)) = []"
  using start_recording_gate
     [of "\<lambda>n. ''1''"
         "(step3_init (1::nat) Map.empty)\<lparr>teleprompterText := ''Hello there, I am Sam.''\<rparr>"]
    start_recording_gate
     [of "\<lambda>n. ''1''" "(step3_init (1::nat) Map.empty)\<lparr>teleprompterText := placeholder_text\<rparr>"]
  by (simp add: step3_init_def may_record_def sublist_code)

end
